theory Spec2Isabelle
  imports Main "HOL-Library.Word"
begin

unbundle bit_operations_syntax

section \<open>The MIPI DSI type vocabulary of \<^verbatim>\<open>hal/mipi_dsi_types.h\<close>\<close>

text \<open>
  The header declares two enumerations and two type aliases whose target depends on the
  preprocessor symbol \<^verbatim>\<open>SOC_MIPI_DSI_SUPPORTED\<close>. It declares no function and no object.
  Each enumeration is a datatype with one constructor per enumerator, in the order of the
  declaration, together with the function giving the integer constant the enumerator stands for.
\<close>

subsection \<open>\<^verbatim>\<open>mipi_dsi_data_type_t\<close>: the packet data types\<close>

datatype mipi_dsi_data_type_t =
    MIPI_DSI_DT_VSYNC_START
  | MIPI_DSI_DT_VSYNC_END
  | MIPI_DSI_DT_HSYNC_START
  | MIPI_DSI_DT_HSYNC_END
  | MIPI_DSI_DT_EOT_PACKET
  | MIPI_DSI_DT_COLOR_MODE_OFF
  | MIPI_DSI_DT_COLOR_MODE_ON
  | MIPI_DSI_DT_SHUTDOWN_PERIPHERAL
  | MIPI_DSI_DT_TURN_ON_PERIPHERAL
  | MIPI_DSI_DT_GENERIC_SHORT_WRITE_0
  | MIPI_DSI_DT_GENERIC_SHORT_WRITE_1
  | MIPI_DSI_DT_GENERIC_SHORT_WRITE_2
  | MIPI_DSI_DT_GENERIC_READ_REQUEST_0
  | MIPI_DSI_DT_GENERIC_READ_REQUEST_1
  | MIPI_DSI_DT_GENERIC_READ_REQUEST_2
  | MIPI_DSI_DT_DCS_SHORT_WRITE_0
  | MIPI_DSI_DT_DCS_SHORT_WRITE_1
  | MIPI_DSI_DT_DCS_READ_0
  | MIPI_DSI_DT_SET_MAXIMUM_RETURN_PKT
  | MIPI_DSI_DT_NULL_PACKET
  | MIPI_DSI_DT_BLANKING_PACKET
  | MIPI_DSI_DT_GENERIC_LONG_WRITE
  | MIPI_DSI_DT_DCS_LONG_WRITE
  | MIPI_DSI_DT_PACKED_PIXEL_STREAM_RGB_16
  | MIPI_DSI_DT_PACKED_PIXEL_STREAM_RGB_18
  | MIPI_DSI_DT_LOOSELY_PIXEL_STREAM_RGB_18
  | MIPI_DSI_DT_PACKED_PIXEL_STREAM_RGB_24

text \<open>Every enumerator of this enumeration carries an explicit initialiser.\<close>

fun mipi_dsi_data_type_val :: "mipi_dsi_data_type_t \<Rightarrow> int" where
  "mipi_dsi_data_type_val MIPI_DSI_DT_VSYNC_START = 0x01"
| "mipi_dsi_data_type_val MIPI_DSI_DT_VSYNC_END = 0x11"
| "mipi_dsi_data_type_val MIPI_DSI_DT_HSYNC_START = 0x21"
| "mipi_dsi_data_type_val MIPI_DSI_DT_HSYNC_END = 0x31"
| "mipi_dsi_data_type_val MIPI_DSI_DT_EOT_PACKET = 0x08"
| "mipi_dsi_data_type_val MIPI_DSI_DT_COLOR_MODE_OFF = 0x02"
| "mipi_dsi_data_type_val MIPI_DSI_DT_COLOR_MODE_ON = 0x12"
| "mipi_dsi_data_type_val MIPI_DSI_DT_SHUTDOWN_PERIPHERAL = 0x22"
| "mipi_dsi_data_type_val MIPI_DSI_DT_TURN_ON_PERIPHERAL = 0x32"
| "mipi_dsi_data_type_val MIPI_DSI_DT_GENERIC_SHORT_WRITE_0 = 0x03"
| "mipi_dsi_data_type_val MIPI_DSI_DT_GENERIC_SHORT_WRITE_1 = 0x13"
| "mipi_dsi_data_type_val MIPI_DSI_DT_GENERIC_SHORT_WRITE_2 = 0x23"
| "mipi_dsi_data_type_val MIPI_DSI_DT_GENERIC_READ_REQUEST_0 = 0x04"
| "mipi_dsi_data_type_val MIPI_DSI_DT_GENERIC_READ_REQUEST_1 = 0x14"
| "mipi_dsi_data_type_val MIPI_DSI_DT_GENERIC_READ_REQUEST_2 = 0x24"
| "mipi_dsi_data_type_val MIPI_DSI_DT_DCS_SHORT_WRITE_0 = 0x05"
| "mipi_dsi_data_type_val MIPI_DSI_DT_DCS_SHORT_WRITE_1 = 0x15"
| "mipi_dsi_data_type_val MIPI_DSI_DT_DCS_READ_0 = 0x06"
| "mipi_dsi_data_type_val MIPI_DSI_DT_SET_MAXIMUM_RETURN_PKT = 0x37"
| "mipi_dsi_data_type_val MIPI_DSI_DT_NULL_PACKET = 0x09"
| "mipi_dsi_data_type_val MIPI_DSI_DT_BLANKING_PACKET = 0x19"
| "mipi_dsi_data_type_val MIPI_DSI_DT_GENERIC_LONG_WRITE = 0x29"
| "mipi_dsi_data_type_val MIPI_DSI_DT_DCS_LONG_WRITE = 0x39"
| "mipi_dsi_data_type_val MIPI_DSI_DT_PACKED_PIXEL_STREAM_RGB_16 = 0x0E"
| "mipi_dsi_data_type_val MIPI_DSI_DT_PACKED_PIXEL_STREAM_RGB_18 = 0x1E"
| "mipi_dsi_data_type_val MIPI_DSI_DT_LOOSELY_PIXEL_STREAM_RGB_18 = 0x2E"
| "mipi_dsi_data_type_val MIPI_DSI_DT_PACKED_PIXEL_STREAM_RGB_24 = 0x3E"

text \<open>The enumerators in the order of their declaration.\<close>

definition mipi_dsi_data_type_members :: "mipi_dsi_data_type_t list" where
  "mipi_dsi_data_type_members =
    [MIPI_DSI_DT_VSYNC_START, MIPI_DSI_DT_VSYNC_END, MIPI_DSI_DT_HSYNC_START,
     MIPI_DSI_DT_HSYNC_END, MIPI_DSI_DT_EOT_PACKET, MIPI_DSI_DT_COLOR_MODE_OFF,
     MIPI_DSI_DT_COLOR_MODE_ON, MIPI_DSI_DT_SHUTDOWN_PERIPHERAL,
     MIPI_DSI_DT_TURN_ON_PERIPHERAL, MIPI_DSI_DT_GENERIC_SHORT_WRITE_0,
     MIPI_DSI_DT_GENERIC_SHORT_WRITE_1, MIPI_DSI_DT_GENERIC_SHORT_WRITE_2,
     MIPI_DSI_DT_GENERIC_READ_REQUEST_0, MIPI_DSI_DT_GENERIC_READ_REQUEST_1,
     MIPI_DSI_DT_GENERIC_READ_REQUEST_2, MIPI_DSI_DT_DCS_SHORT_WRITE_0,
     MIPI_DSI_DT_DCS_SHORT_WRITE_1, MIPI_DSI_DT_DCS_READ_0,
     MIPI_DSI_DT_SET_MAXIMUM_RETURN_PKT, MIPI_DSI_DT_NULL_PACKET,
     MIPI_DSI_DT_BLANKING_PACKET, MIPI_DSI_DT_GENERIC_LONG_WRITE,
     MIPI_DSI_DT_DCS_LONG_WRITE, MIPI_DSI_DT_PACKED_PIXEL_STREAM_RGB_16,
     MIPI_DSI_DT_PACKED_PIXEL_STREAM_RGB_18, MIPI_DSI_DT_LOOSELY_PIXEL_STREAM_RGB_18,
     MIPI_DSI_DT_PACKED_PIXEL_STREAM_RGB_24]"

text \<open>
  The enumeration is declared \<^verbatim>\<open>__attribute__((packed))\<close>: the compiler stores it in the
  smallest integer type that holds every enumerator, where an enumeration without the
  attribute has the size of \<^verbatim>\<open>int\<close> (four bytes on the targets of this code base).
  \<open>enum_sizeof\<close> gives the size in bytes from the attribute and the enumerator values.
\<close>

definition fits_in_bytes :: "nat \<Rightarrow> int list \<Rightarrow> bool" where
  "fits_in_bytes n vs =
     (list_all (\<lambda>v. 0 \<le> v \<and> v < 2 ^ (8 * n)) vs \<or>
      list_all (\<lambda>v. - (2 ^ (8 * n - 1)) \<le> v \<and> v < 2 ^ (8 * n - 1)) vs)"

definition enum_sizeof :: "bool \<Rightarrow> int list \<Rightarrow> nat" where
  "enum_sizeof packed vs =
     (if \<not> packed then 4
      else if fits_in_bytes 1 vs then 1
      else if fits_in_bytes 2 vs then 2
      else if fits_in_bytes 4 vs then 4
      else 8)"

definition mipi_dsi_data_type_sizeof :: nat where
  "mipi_dsi_data_type_sizeof =
     enum_sizeof True (map mipi_dsi_data_type_val mipi_dsi_data_type_members)"

text \<open>The byte a value of the packed enumeration is stored as.\<close>

definition mipi_dsi_data_type_byte :: "mipi_dsi_data_type_t \<Rightarrow> 8 word" where
  "mipi_dsi_data_type_byte d = word_of_int (mipi_dsi_data_type_val d)"

subsection \<open>\<^verbatim>\<open>mipi_dsi_pattern_type_t\<close>: the test patterns of the host controller\<close>

datatype mipi_dsi_pattern_type_t =
    MIPI_DSI_PATTERN_NONE
  | MIPI_DSI_PATTERN_BAR_VERTICAL
  | MIPI_DSI_PATTERN_BAR_HORIZONTAL
  | MIPI_DSI_PATTERN_BER_VERTICAL

text \<open>
  No enumerator of this enumeration has an initialiser. In C the first enumerator then
  stands for 0 and every later one for the value of its predecessor plus 1.
\<close>

function mipi_dsi_pattern_type_val :: "mipi_dsi_pattern_type_t \<Rightarrow> int" where
  "mipi_dsi_pattern_type_val MIPI_DSI_PATTERN_NONE = 0"
| "mipi_dsi_pattern_type_val MIPI_DSI_PATTERN_BAR_VERTICAL =
     mipi_dsi_pattern_type_val MIPI_DSI_PATTERN_NONE + 1"
| "mipi_dsi_pattern_type_val MIPI_DSI_PATTERN_BAR_HORIZONTAL =
     mipi_dsi_pattern_type_val MIPI_DSI_PATTERN_BAR_VERTICAL + 1"
| "mipi_dsi_pattern_type_val MIPI_DSI_PATTERN_BER_VERTICAL =
     mipi_dsi_pattern_type_val MIPI_DSI_PATTERN_BAR_HORIZONTAL + 1"
  by pat_completeness auto
termination
  by (relation "measure (\<lambda>p. case p of
        MIPI_DSI_PATTERN_NONE \<Rightarrow> 0
      | MIPI_DSI_PATTERN_BAR_VERTICAL \<Rightarrow> 1
      | MIPI_DSI_PATTERN_BAR_HORIZONTAL \<Rightarrow> 2
      | MIPI_DSI_PATTERN_BER_VERTICAL \<Rightarrow> 3)") auto

definition mipi_dsi_pattern_type_members :: "mipi_dsi_pattern_type_t list" where
  "mipi_dsi_pattern_type_members =
    [MIPI_DSI_PATTERN_NONE, MIPI_DSI_PATTERN_BAR_VERTICAL,
     MIPI_DSI_PATTERN_BAR_HORIZONTAL, MIPI_DSI_PATTERN_BER_VERTICAL]"

subsection \<open>The header as a list of declarations\<close>

text \<open>
  What the header declares at file scope. A declaration is an enumeration (its typedef
  name, whether it is packed, and its enumerators with their optional initialisers), a
  type alias, a function or an object. The header includes \<^verbatim>\<open>soc/clk_tree_defs.h\<close>, which
  is where the platform's clock-source types come from; a type of that header is referred
  to by its name.
\<close>

datatype c_type = C_int | C_named string

datatype c_decl =
    Enum_decl string bool "(string \<times> int option) list"
  | Typedef_decl string c_type
  | Function_decl string c_type
  | Object_decl string c_type

definition mipi_dsi_data_type_t_decl :: c_decl where
  "mipi_dsi_data_type_t_decl = Enum_decl ''mipi_dsi_data_type_t'' True
    [(''MIPI_DSI_DT_VSYNC_START'', Some 0x01),
     (''MIPI_DSI_DT_VSYNC_END'', Some 0x11),
     (''MIPI_DSI_DT_HSYNC_START'', Some 0x21),
     (''MIPI_DSI_DT_HSYNC_END'', Some 0x31),
     (''MIPI_DSI_DT_EOT_PACKET'', Some 0x08),
     (''MIPI_DSI_DT_COLOR_MODE_OFF'', Some 0x02),
     (''MIPI_DSI_DT_COLOR_MODE_ON'', Some 0x12),
     (''MIPI_DSI_DT_SHUTDOWN_PERIPHERAL'', Some 0x22),
     (''MIPI_DSI_DT_TURN_ON_PERIPHERAL'', Some 0x32),
     (''MIPI_DSI_DT_GENERIC_SHORT_WRITE_0'', Some 0x03),
     (''MIPI_DSI_DT_GENERIC_SHORT_WRITE_1'', Some 0x13),
     (''MIPI_DSI_DT_GENERIC_SHORT_WRITE_2'', Some 0x23),
     (''MIPI_DSI_DT_GENERIC_READ_REQUEST_0'', Some 0x04),
     (''MIPI_DSI_DT_GENERIC_READ_REQUEST_1'', Some 0x14),
     (''MIPI_DSI_DT_GENERIC_READ_REQUEST_2'', Some 0x24),
     (''MIPI_DSI_DT_DCS_SHORT_WRITE_0'', Some 0x05),
     (''MIPI_DSI_DT_DCS_SHORT_WRITE_1'', Some 0x15),
     (''MIPI_DSI_DT_DCS_READ_0'', Some 0x06),
     (''MIPI_DSI_DT_SET_MAXIMUM_RETURN_PKT'', Some 0x37),
     (''MIPI_DSI_DT_NULL_PACKET'', Some 0x09),
     (''MIPI_DSI_DT_BLANKING_PACKET'', Some 0x19),
     (''MIPI_DSI_DT_GENERIC_LONG_WRITE'', Some 0x29),
     (''MIPI_DSI_DT_DCS_LONG_WRITE'', Some 0x39),
     (''MIPI_DSI_DT_PACKED_PIXEL_STREAM_RGB_16'', Some 0x0E),
     (''MIPI_DSI_DT_PACKED_PIXEL_STREAM_RGB_18'', Some 0x1E),
     (''MIPI_DSI_DT_LOOSELY_PIXEL_STREAM_RGB_18'', Some 0x2E),
     (''MIPI_DSI_DT_PACKED_PIXEL_STREAM_RGB_24'', Some 0x3E)]"

definition mipi_dsi_pattern_type_t_decl :: c_decl where
  "mipi_dsi_pattern_type_t_decl = Enum_decl ''mipi_dsi_pattern_type_t'' False
    [(''MIPI_DSI_PATTERN_NONE'', None),
     (''MIPI_DSI_PATTERN_BAR_VERTICAL'', None),
     (''MIPI_DSI_PATTERN_BAR_HORIZONTAL'', None),
     (''MIPI_DSI_PATTERN_BER_VERTICAL'', None)]"

text \<open>
  The parameter is the value the preprocessor gives \<^verbatim>\<open>SOC_MIPI_DSI_SUPPORTED\<close> in
  \<^verbatim>\<open>#if SOC_MIPI_DSI_SUPPORTED\<close>: 0 when the symbol is not defined.
\<close>

definition mipi_dsi_types_h :: "int \<Rightarrow> c_decl list" where
  "mipi_dsi_types_h SOC_MIPI_DSI_SUPPORTED =
     [mipi_dsi_data_type_t_decl, mipi_dsi_pattern_type_t_decl] @
     (if SOC_MIPI_DSI_SUPPORTED \<noteq> 0 then
        [Typedef_decl ''mipi_dsi_phy_clock_source_t''
           (C_named ''soc_periph_mipi_dsi_phy_clk_src_t''),
         Typedef_decl ''mipi_dsi_dpi_clock_source_t''
           (C_named ''soc_periph_mipi_dsi_dpi_clk_src_t'')]
      else
        [Typedef_decl ''mipi_dsi_phy_clock_source_t'' C_int,
         Typedef_decl ''mipi_dsi_dpi_clock_source_t'' C_int])"

subsection \<open>Reading a list of declarations\<close>

text \<open>
  The values of the enumerators of one enumeration: an initialiser gives the value, an
  enumerator without one is its predecessor plus 1, and 0 when it is the first.
\<close>

fun enumerator_values :: "int \<Rightarrow> (string \<times> int option) list \<Rightarrow> (string \<times> int) list" where
  "enumerator_values nxt [] = []"
| "enumerator_values nxt ((n, None) # es) = (n, nxt) # enumerator_values (nxt + 1) es"
| "enumerator_values nxt ((n, Some v) # es) = (n, v) # enumerator_values (v + 1) es"

fun enum_constants :: "c_decl list \<Rightarrow> string \<Rightarrow> (string \<times> int) list option" where
  "enum_constants [] t = None"
| "enum_constants (Enum_decl n p es # ds) t =
     (if n = t then Some (enumerator_values 0 es) else enum_constants ds t)"
| "enum_constants (d # ds) t = enum_constants ds t"

fun typedef_lookup :: "c_decl list \<Rightarrow> string \<Rightarrow> c_type option" where
  "typedef_lookup [] t = None"
| "typedef_lookup (Typedef_decl n ty # ds) t =
     (if n = t then Some ty else typedef_lookup ds t)"
| "typedef_lookup (d # ds) t = typedef_lookup ds t"

fun declared_name :: "c_decl \<Rightarrow> string" where
  "declared_name (Enum_decl n p es) = n"
| "declared_name (Typedef_decl n ty) = n"
| "declared_name (Function_decl n ty) = n"
| "declared_name (Object_decl n ty) = n"

fun is_type_decl :: "c_decl \<Rightarrow> bool" where
  "is_type_decl (Enum_decl n p es) = True"
| "is_type_decl (Typedef_decl n ty) = True"
| "is_type_decl (Function_decl n ty) = False"
| "is_type_decl (Object_decl n ty) = False"

fun is_function_decl :: "c_decl \<Rightarrow> bool" where
  "is_function_decl (Function_decl n ty) = True"
| "is_function_decl d = False"

fun is_object_decl :: "c_decl \<Rightarrow> bool" where
  "is_object_decl (Object_decl n ty) = True"
| "is_object_decl d = False"

text \<open>
  The type names a list of declarations refers to without declaring them: they have to
  come from an included header for the declarations to compile.
\<close>

fun external_type_names :: "c_decl list \<Rightarrow> string list" where
  "external_type_names [] = []"
| "external_type_names (Typedef_decl n (C_named m) # ds) = m # external_type_names ds"
| "external_type_names (d # ds) = external_type_names ds"


section \<open>Properties\<close>

subsection \<open>Auxiliary facts\<close>

lemma mipi_dsi_data_type_members_complete:
  "set mipi_dsi_data_type_members = UNIV"
proof (rule set_eqI)
  fix d :: mipi_dsi_data_type_t
  show "(d \<in> set mipi_dsi_data_type_members) = (d \<in> UNIV)"
    unfolding mipi_dsi_data_type_members_def by (cases d) simp_all
qed

lemma mipi_dsi_pattern_type_members_complete:
  "set mipi_dsi_pattern_type_members = UNIV"
proof (rule set_eqI)
  fix p :: mipi_dsi_pattern_type_t
  show "(p \<in> set mipi_dsi_pattern_type_members) = (p \<in> UNIV)"
    unfolding mipi_dsi_pattern_type_members_def by (cases p) simp_all
qed

lemma mipi_dsi_pattern_type_members_distinct:
  "distinct mipi_dsi_pattern_type_members"
  by (simp add: mipi_dsi_pattern_type_members_def)

lemma enum_constants_data_type:
  "enum_constants (mipi_dsi_types_h soc) ''mipi_dsi_data_type_t'' =
     (case mipi_dsi_data_type_t_decl of Enum_decl n p es \<Rightarrow> Some (enumerator_values 0 es))"
  by (simp add: mipi_dsi_types_h_def mipi_dsi_data_type_t_decl_def)

subsection \<open>The packet data types\<close>

text \<open>
  C1. Each packet data-type constant has the numeric value the header gives it: the values
  of the 27 enumerators, in the order of the declaration, are the table below; in particular
  V Sync Start is 0x01, DCS Long Write is 0x39 and Packed Pixel Stream RGB888 is 0x3E.
\<close>

theorem data_type_constant_values:
  "mipi_dsi_data_type_val MIPI_DSI_DT_VSYNC_START = 0x01 \<and>
   mipi_dsi_data_type_val MIPI_DSI_DT_DCS_LONG_WRITE = 0x39 \<and>
   mipi_dsi_data_type_val MIPI_DSI_DT_PACKED_PIXEL_STREAM_RGB_24 = 0x3E \<and>
   map mipi_dsi_data_type_val mipi_dsi_data_type_members =
     [0x01, 0x11, 0x21, 0x31, 0x08, 0x02, 0x12, 0x22, 0x32, 0x03, 0x13, 0x23, 0x04, 0x14,
      0x24, 0x05, 0x15, 0x06, 0x37, 0x09, 0x19, 0x29, 0x39, 0x0E, 0x1E, 0x2E, 0x3E]"
  by (simp add: mipi_dsi_data_type_members_def)

text \<open>
  C3. Every packet data-type code is an 8-bit constant: the value of every enumerator lies
  between 0 and 0xFF, the byte it is stored as reads back as that value, and the packed
  enumeration has size one byte.
\<close>

theorem data_type_is_one_byte:
  "0 \<le> mipi_dsi_data_type_val d \<and> mipi_dsi_data_type_val d \<le> 0xFF \<and>
   uint (mipi_dsi_data_type_byte d) = mipi_dsi_data_type_val d \<and>
   mipi_dsi_data_type_sizeof = 1"
proof -
  have range: "0 \<le> mipi_dsi_data_type_val d \<and> mipi_dsi_data_type_val d \<le> 0xFF"
    by (cases d) simp_all
  have byte: "uint (mipi_dsi_data_type_byte d) = mipi_dsi_data_type_val d"
    by (cases d) (simp_all add: mipi_dsi_data_type_byte_def)
  have size: "mipi_dsi_data_type_sizeof = 1"
    by (simp add: mipi_dsi_data_type_sizeof_def enum_sizeof_def fits_in_bytes_def
        mipi_dsi_data_type_members_def)
  from range byte size show ?thesis by simp
qed

text \<open>
  C5. The 27 enumerators of the packet data-type enumeration have pairwise distinct values:
  two different enumerators never stand for the same number, so a data-type code names one
  packet kind only.
\<close>

theorem data_type_values_distinct:
  "length mipi_dsi_data_type_members = 27 \<and>
   set mipi_dsi_data_type_members = UNIV \<and>
   distinct (map mipi_dsi_data_type_val mipi_dsi_data_type_members) \<and>
   (a \<noteq> b \<longrightarrow> mipi_dsi_data_type_val a \<noteq> mipi_dsi_data_type_val b)"
proof -
  have len: "length mipi_dsi_data_type_members = 27"
    by (simp add: mipi_dsi_data_type_members_def)
  have dist: "distinct (map mipi_dsi_data_type_val mipi_dsi_data_type_members)"
    by (simp add: mipi_dsi_data_type_members_def)
  have "inj_on mipi_dsi_data_type_val (set mipi_dsi_data_type_members)"
    using dist by (simp add: distinct_map)
  then have "inj mipi_dsi_data_type_val"
    by (simp add: mipi_dsi_data_type_members_complete)
  then have "a \<noteq> b \<longrightarrow> mipi_dsi_data_type_val a \<noteq> mipi_dsi_data_type_val b"
    by (auto dest: injD)
  with len dist mipi_dsi_data_type_members_complete show ?thesis by simp
qed

theorem data_type_values_distinct_witness:
  "MIPI_DSI_DT_DCS_SHORT_WRITE_1 \<noteq> MIPI_DSI_DT_DCS_LONG_WRITE \<and>
   mipi_dsi_data_type_val MIPI_DSI_DT_DCS_SHORT_WRITE_1 \<noteq>
   mipi_dsi_data_type_val MIPI_DSI_DT_DCS_LONG_WRITE"
  using data_type_values_distinct
    [of MIPI_DSI_DT_DCS_SHORT_WRITE_1 MIPI_DSI_DT_DCS_LONG_WRITE]
  by simp

text \<open>
  C6. Every packet data-type code is at most 0x3E, hence below 0x40: it fits the 6-bit
  data-type field of a packet header, and the top two bits of its byte are clear.
\<close>

theorem data_type_fits_six_bits:
  "mipi_dsi_data_type_val d \<le> 0x3E \<and> mipi_dsi_data_type_val d < 0x40 \<and>
   mipi_dsi_data_type_byte d AND 0xC0 = 0"
  by (cases d) (simp_all add: mipi_dsi_data_type_byte_def)

subsection \<open>The test patterns\<close>

text \<open>
  C2. The test-pattern enumeration has exactly four members, declared in the order
  NONE, BAR_VERTICAL, BAR_HORIZONTAL, BER_VERTICAL, and they stand for 0, 1, 2 and 3; this
  is also what the declaration in the header evaluates to, whatever the configuration.
\<close>

theorem pattern_type_four_members_in_order:
  "mipi_dsi_pattern_type_members =
     [MIPI_DSI_PATTERN_NONE, MIPI_DSI_PATTERN_BAR_VERTICAL,
      MIPI_DSI_PATTERN_BAR_HORIZONTAL, MIPI_DSI_PATTERN_BER_VERTICAL] \<and>
   set mipi_dsi_pattern_type_members = UNIV \<and>
   card (UNIV :: mipi_dsi_pattern_type_t set) = 4 \<and>
   map mipi_dsi_pattern_type_val mipi_dsi_pattern_type_members = [0, 1, 2, 3] \<and>
   enum_constants (mipi_dsi_types_h soc) ''mipi_dsi_pattern_type_t'' =
     Some [(''MIPI_DSI_PATTERN_NONE'', 0), (''MIPI_DSI_PATTERN_BAR_VERTICAL'', 1),
           (''MIPI_DSI_PATTERN_BAR_HORIZONTAL'', 2), (''MIPI_DSI_PATTERN_BER_VERTICAL'', 3)]"
proof -
  have "card (set mipi_dsi_pattern_type_members) = length mipi_dsi_pattern_type_members"
    using mipi_dsi_pattern_type_members_distinct by (rule distinct_card)
  then have card: "card (UNIV :: mipi_dsi_pattern_type_t set) = 4"
    by (simp add: mipi_dsi_pattern_type_members_complete)
      (simp add: mipi_dsi_pattern_type_members_def)
  have vals: "map mipi_dsi_pattern_type_val mipi_dsi_pattern_type_members = [0, 1, 2, 3]"
    by (simp add: mipi_dsi_pattern_type_members_def)
  have decl: "enum_constants (mipi_dsi_types_h soc) ''mipi_dsi_pattern_type_t'' =
     Some [(''MIPI_DSI_PATTERN_NONE'', 0), (''MIPI_DSI_PATTERN_BAR_VERTICAL'', 1),
           (''MIPI_DSI_PATTERN_BAR_HORIZONTAL'', 2), (''MIPI_DSI_PATTERN_BER_VERTICAL'', 3)]"
    by (simp add: mipi_dsi_types_h_def mipi_dsi_data_type_t_decl_def
        mipi_dsi_pattern_type_t_decl_def)
  from card vals decl mipi_dsi_pattern_type_members_complete show ?thesis
    by (simp add: mipi_dsi_pattern_type_members_def)
qed

text \<open>
  C7. MIPI_DSI_PATTERN_NONE is 0, and it is the only member that is: a pattern value that
  was initialised to zero selects no test pattern.
\<close>

theorem pattern_none_is_zero:
  "mipi_dsi_pattern_type_val MIPI_DSI_PATTERN_NONE = 0 \<and>
   (mipi_dsi_pattern_type_val p = 0) = (p = MIPI_DSI_PATTERN_NONE)"
  by (cases p) simp_all

subsection \<open>The clock-source aliases\<close>

text \<open>
  C4. When SOC_MIPI_DSI_SUPPORTED is enabled (not 0), mipi_dsi_phy_clock_source_t and
  mipi_dsi_dpi_clock_source_t are aliases of the platform's
  soc_periph_mipi_dsi_phy_clk_src_t and soc_periph_mipi_dsi_dpi_clk_src_t; otherwise both
  are aliases of int. Both names are declared, once each, under either branch, so code
  that names them finds a type in both configurations; the enabled branch takes the two
  platform types from the included clock-tree header, the other branch needs nothing from it.
\<close>

theorem clock_source_aliases:
  "typedef_lookup (mipi_dsi_types_h soc) ''mipi_dsi_phy_clock_source_t'' =
     Some (if soc \<noteq> 0 then C_named ''soc_periph_mipi_dsi_phy_clk_src_t'' else C_int) \<and>
   typedef_lookup (mipi_dsi_types_h soc) ''mipi_dsi_dpi_clock_source_t'' =
     Some (if soc \<noteq> 0 then C_named ''soc_periph_mipi_dsi_dpi_clk_src_t'' else C_int) \<and>
   map declared_name (mipi_dsi_types_h soc) =
     [''mipi_dsi_data_type_t'', ''mipi_dsi_pattern_type_t'',
      ''mipi_dsi_phy_clock_source_t'', ''mipi_dsi_dpi_clock_source_t''] \<and>
   external_type_names (mipi_dsi_types_h soc) =
     (if soc \<noteq> 0
      then [''soc_periph_mipi_dsi_phy_clk_src_t'', ''soc_periph_mipi_dsi_dpi_clk_src_t'']
      else [])"
  by (simp add: mipi_dsi_types_h_def mipi_dsi_data_type_t_decl_def
      mipi_dsi_pattern_type_t_decl_def)

theorem clock_source_aliases_witness:
  "typedef_lookup (mipi_dsi_types_h 1) ''mipi_dsi_phy_clock_source_t'' =
     Some (C_named ''soc_periph_mipi_dsi_phy_clk_src_t'') \<and>
   typedef_lookup (mipi_dsi_types_h 1) ''mipi_dsi_dpi_clock_source_t'' =
     Some (C_named ''soc_periph_mipi_dsi_dpi_clk_src_t'') \<and>
   typedef_lookup (mipi_dsi_types_h 0) ''mipi_dsi_phy_clock_source_t'' = Some C_int \<and>
   typedef_lookup (mipi_dsi_types_h 0) ''mipi_dsi_dpi_clock_source_t'' = Some C_int \<and>
   external_type_names (mipi_dsi_types_h 0) = []"
  using clock_source_aliases [of 1] clock_source_aliases [of 0]
  by simp

subsection \<open>The header as a whole\<close>

text \<open>
  C8. The packet data-type codes are compile-time constants: in every configuration the
  header's declaration gives the enumerators, in order, the same fixed values (those of
  \<open>mipi_dsi_data_type_val\<close>, which takes no state), and the header declares no function
  and no object, so nothing in the file could change one.
\<close>

theorem data_type_codes_are_constants:
  "map_option (map snd) (enum_constants (mipi_dsi_types_h soc) ''mipi_dsi_data_type_t'') =
     Some (map mipi_dsi_data_type_val mipi_dsi_data_type_members) \<and>
   filter is_function_decl (mipi_dsi_types_h soc) = [] \<and>
   filter is_object_decl (mipi_dsi_types_h soc) = []"
proof -
  have vals: "map_option (map snd)
       (enum_constants (mipi_dsi_types_h soc) ''mipi_dsi_data_type_t'') =
     Some (map mipi_dsi_data_type_val mipi_dsi_data_type_members)"
    unfolding enum_constants_data_type
    by (simp add: mipi_dsi_data_type_t_decl_def mipi_dsi_data_type_members_def)
  have nofun: "filter is_function_decl (mipi_dsi_types_h soc) = []"
    by (simp add: mipi_dsi_types_h_def mipi_dsi_data_type_t_decl_def
        mipi_dsi_pattern_type_t_decl_def)
  have noobj: "filter is_object_decl (mipi_dsi_types_h soc) = []"
    by (simp add: mipi_dsi_types_h_def mipi_dsi_data_type_t_decl_def
        mipi_dsi_pattern_type_t_decl_def)
  from vals nofun noobj show ?thesis by simp
qed

text \<open>
  C9. The header defines no fallible operation: in every configuration each of its
  declarations is an enumeration or a type alias, and none is a function, so there is
  nothing in it that could fail or return an error.
\<close>

theorem header_declares_types_only:
  "list_all is_type_decl (mipi_dsi_types_h soc) \<and>
   length (mipi_dsi_types_h soc) = 4 \<and>
   \<not> list_ex is_function_decl (mipi_dsi_types_h soc)"
  by (simp add: mipi_dsi_types_h_def mipi_dsi_data_type_t_decl_def
      mipi_dsi_pattern_type_t_decl_def)


end
